theory Spec2Isabelle
  imports Main
begin

section \<open>The message control plane of \<^verbatim>\<open>src/typescript/mcp/mcp.ts\<close>\<close>

text \<open>
  The class \<^verbatim>\<open>MessageControlPlane\<close> runs a request through validators, a handler chosen
  by the message type, and response interceptors. The three kinds of plugin are
  asynchronous functions supplied by the caller; \<^verbatim>\<open>processRequest\<close> awaits each of them
  before it goes on, so one call is a sequential program. The model below is that program:
  \<^item> a plugin is a function of its argument and of a plugin state \<open>'w\<close> (whatever the plugins
    read and write outside the pipeline: spies, logs, counters), returning its outcome and
    the new state; a rejected promise or a \<^verbatim>\<open>throw\<close> is an outcome, not a fault of the model;
  \<^item> messages, requests and responses are values: a plugin hands data to the pipeline
    through what it returns or throws, and the model has no in-place mutation of the
    argument object;
  \<^item> every invocation of a plugin is recorded, in order, in a list of calls;
  \<^item> \<^verbatim>\<open>Date.now()\<close>, \<^verbatim>\<open>Math.random()\<close> and \<^verbatim>\<open>new Date()\<close> are read from an
    environment that is a parameter;
  \<^item> console output is left out, and so is a plugin whose promise never settles: a plugin
    is a total function here.
\<close>

subsection \<open>JavaScript values\<close>

text \<open>
  \<^verbatim>\<open>content: any\<close> and the entries of \<^verbatim>\<open>metadata: Record<string, any>\<close> are untyped.
  They are modelled as JSON values together with \<^verbatim>\<open>undefined\<close>; numbers are restricted to
  integers. An object is the list of its own properties, with distinct keys. A string is a
  list of bytes (UTF-8).
\<close>

datatype jsval =
    JUndefined
  | JNull
  | JBool bool
  | JNum int
  | JStr string
  | JArr "jsval list"
  | JObj "(string \<times> jsval) list"

text \<open>ToBoolean: the falsy values are \<^verbatim>\<open>undefined\<close>, \<^verbatim>\<open>null\<close>, \<^verbatim>\<open>false\<close>, \<^verbatim>\<open>0\<close> and \<^verbatim>\<open>""\<close>.\<close>

fun truthy :: "jsval \<Rightarrow> bool" where
  "truthy JUndefined = False"
| "truthy JNull = False"
| "truthy (JBool b) = b"
| "truthy (JNum n) = (n \<noteq> 0)"
| "truthy (JStr s) = (s \<noteq> [])"
| "truthy (JArr xs) = True"
| "truthy (JObj ps) = True"

text \<open>The operator \<^verbatim>\<open>a || b\<close>.\<close>

definition js_or :: "jsval \<Rightarrow> jsval \<Rightarrow> jsval" where
  "js_or a b = (if truthy a then a else b)"

text \<open>Decimal digits of an integer, as a template literal prints a number.\<close>

definition digit :: "nat \<Rightarrow> char" where
  "digit n = ''0123456789'' ! (n mod 10)"

function string_of_nat :: "nat \<Rightarrow> string" where
  "string_of_nat n =
     (if n < 10 then [digit n] else string_of_nat (n div 10) @ [digit (n mod 10)])"
  by pat_completeness auto
termination
  by (relation "measure (\<lambda>n. n)") auto

declare string_of_nat.simps [simp del]

definition string_of_int :: "int \<Rightarrow> string" where
  "string_of_int i =
     (if i < 0 then CHR ''-'' # string_of_nat (nat (- i)) else string_of_nat (nat i))"

text \<open>
  ToString, as a template literal applies it. An array joins its elements with commas,
  \<^verbatim>\<open>null\<close> and \<^verbatim>\<open>undefined\<close> elements printing as nothing; a plain object prints as
  \<^verbatim>\<open>[object Object]\<close>.
\<close>

fun toString :: "jsval \<Rightarrow> string" and joinElements :: "jsval list \<Rightarrow> string" where
  "toString JUndefined = ''undefined''"
| "toString JNull = ''null''"
| "toString (JBool b) = (if b then ''true'' else ''false'')"
| "toString (JNum n) = string_of_int n"
| "toString (JStr s) = s"
| "toString (JArr xs) = joinElements xs"
| "toString (JObj ps) = ''[object Object]''"
| "joinElements [] = []"
| "joinElements (x # xs) =
     (if x = JUndefined \<or> x = JNull then [] else toString x) @
     (if xs = [] then [] else CHR '','' # joinElements xs)"

subsection \<open>Messages, requests, responses\<close>

text \<open>
  The interfaces \<^verbatim>\<open>MCPMessage\<close>, \<^verbatim>\<open>MCPRequest\<close> and \<^verbatim>\<open>MCPResponse\<close>. The field
  \<^verbatim>\<open>id\<close> is \<open>id_m\<close> here and the \<^verbatim>\<open>message\<close> of an error is \<open>message_e\<close>. A
  \<^verbatim>\<open>Date\<close> is its number of milliseconds. An optional field is an \<open>option\<close>.
\<close>

record MCPMessage =
  id_m :: string
  source :: string
  conversationId :: string
  timestamp :: int
  content :: jsval
  metadata :: "(string \<times> jsval) list option"

record MCPRequest =
  message :: MCPMessage

record MCPError =
  code :: string
  message_e :: string

record MCPResponse =
  originalMessageId :: string
  responseMessage :: MCPMessage
  success :: bool
  error :: "MCPError option"

subsection \<open>Plugins and what they throw\<close>

text \<open>
  \<^verbatim>\<open>catch (error: any)\<close> receives whatever was thrown. The catch blocks of the validators
  and of the handler read \<^verbatim>\<open>error.message\<close>, so three kinds of thrown value differ:
  an object whose \<^verbatim>\<open>message\<close> is a string (every \<^verbatim>\<open>Error\<close>), any other value that is
  not nullish (reading \<^verbatim>\<open>message\<close> gives \<^verbatim>\<open>undefined\<close>), and \<^verbatim>\<open>null\<close> or
  \<^verbatim>\<open>undefined\<close> (reading \<^verbatim>\<open>message\<close> throws a TypeError). A thrown object whose
  \<^verbatim>\<open>message\<close> is not a string is left out: the \<^verbatim>\<open>message\<close> of the error of a
  response is a string.
\<close>

datatype thrown = Thrown_Error string | Thrown_Other | Thrown_Nullish

datatype fault = TypeError

type_synonym 'w validator = "MCPRequest \<Rightarrow> 'w \<Rightarrow> thrown option \<times> 'w"

type_synonym 'w handler = "MCPMessage \<Rightarrow> 'w \<Rightarrow> (thrown + MCPMessage option) \<times> 'w"

type_synonym 'w interceptor = "MCPResponse \<Rightarrow> 'w \<Rightarrow> (thrown + MCPResponse) \<times> 'w"

datatype call = Validator_call nat | Handler_call string | Interceptor_call nat

record js_env =
  dateNow :: int
  randomSuffix :: string
  newDate :: int

subsection \<open>The class and its registration methods\<close>

record 'w MessageControlPlane =
  messageHandlers :: "string \<rightharpoonup> 'w handler"
  requestValidators :: "'w validator list"
  responseInterceptors :: "'w interceptor list"

definition constructor :: "'w MessageControlPlane" where
  "constructor =
     \<lparr>messageHandlers = Map.empty, requestValidators = [], responseInterceptors = []\<rparr>"

definition registerMessageHandler ::
  "'w MessageControlPlane \<Rightarrow> string \<Rightarrow> 'w handler \<Rightarrow> 'w MessageControlPlane" where
  "registerMessageHandler mcp key handler =
     mcp\<lparr>messageHandlers := (messageHandlers mcp)(key \<mapsto> handler)\<rparr>"

definition addRequestValidator ::
  "'w MessageControlPlane \<Rightarrow> 'w validator \<Rightarrow> 'w MessageControlPlane" where
  "addRequestValidator mcp validator =
     mcp\<lparr>requestValidators := requestValidators mcp @ [validator]\<rparr>"

definition addResponseInterceptor ::
  "'w MessageControlPlane \<Rightarrow> 'w interceptor \<Rightarrow> 'w MessageControlPlane" where
  "addResponseInterceptor mcp interceptor =
     mcp\<lparr>responseInterceptors := responseInterceptors mcp @ [interceptor]\<rparr>"

subsection \<open>\<^verbatim>\<open>buildErrorResponse\<close>\<close>

definition buildErrorResponse :: "js_env \<Rightarrow> string \<Rightarrow> string \<Rightarrow> string \<Rightarrow> MCPResponse" where
  "buildErrorResponse env origId errorCode errorMessage =
     \<lparr>originalMessageId = origId,
      responseMessage =
        \<lparr>id_m = ''error-'' @ string_of_int (dateNow env) @ ''-'' @ randomSuffix env,
         source = ''mcp_error_handler'',
         conversationId = ''conv-for-'' @ origId,
         timestamp = newDate env,
         content = JObj [(''error'', JStr errorCode), (''message'', JStr errorMessage)],
         metadata = Some [(''originalMessageId'', JStr origId)]\<rparr>,
      success = False,
      error = Some \<lparr>code = errorCode, message_e = errorMessage\<rparr>\<rparr>"

subsection \<open>\<^verbatim>\<open>processRequest\<close>\<close>

text \<open>
  Step 1, the loop over \<^verbatim>\<open>requestValidators\<close> inside its \<^verbatim>\<open>try\<close>: the first validator
  that throws ends the loop. The number is the position of the head of the list in the
  registered sequence.
\<close>

fun run_validators ::
  "'w validator list \<Rightarrow> nat \<Rightarrow> MCPRequest \<Rightarrow> 'w \<Rightarrow> thrown option \<times> 'w \<times> call list" where
  "run_validators [] i request w = (None, w, [])"
| "run_validators (validator # vs) i request w =
     (case validator request w of
        (Some e, w') \<Rightarrow> (Some e, w', [Validator_call i])
      | (None, w') \<Rightarrow>
          (case run_validators vs (Suc i) request w' of
             (r, w'', cs) \<Rightarrow> (r, w'', Validator_call i # cs)))"

text \<open>
  \<^verbatim>\<open>error.message || fallback\<close> in a catch block: a fault when the thrown value is nullish,
  the fallback when there is no message or an empty one.
\<close>

definition caught_message :: "thrown \<Rightarrow> string \<Rightarrow> fault + string" where
  "caught_message e fallback =
     (case e of
        Thrown_Nullish \<Rightarrow> Inl TypeError
      | Thrown_Other \<Rightarrow> Inr fallback
      | Thrown_Error m \<Rightarrow> Inr (if m = [] then fallback else m))"

definition unknown_validation_error :: string where
  "unknown_validation_error =
     ''Error de validaci'' @ [CHR 0xC3, CHR 0xB3] @ ''n desconocido.''"

definition unknown_handler_error :: string where
  "unknown_handler_error = ''Error desconocido en el manejador.''"

text \<open>Step 2: \<^verbatim>\<open>request.message.metadata?.type || 'default'\<close>.\<close>

definition metadata_type :: "MCPMessage \<Rightarrow> jsval" where
  "metadata_type m =
     (case metadata m of
        None \<Rightarrow> JUndefined
      | Some ps \<Rightarrow> (case map_of ps ''type'' of None \<Rightarrow> JUndefined | Some v \<Rightarrow> v))"

definition messageType :: "MCPRequest \<Rightarrow> jsval" where
  "messageType request = js_or (metadata_type (message request)) (JStr ''default'')"

text \<open>
  \<^verbatim>\<open>this.messageHandlers.get(messageType)\<close>: the keys of the map are strings, and a key
  that is not a string equals none of them.
\<close>

definition get_handler :: "(string \<rightharpoonup> 'h) \<Rightarrow> jsval \<Rightarrow> 'h option" where
  "get_handler handlers k = (case k of JStr s \<Rightarrow> handlers s | _ \<Rightarrow> None)"

definition handler_not_found_message :: "jsval \<Rightarrow> string \<Rightarrow> string" where
  "handler_not_found_message mt mid =
     ''No se encontr'' @ [CHR 0xC3, CHR 0xB3] @ '' un manejador para el tipo de mensaje ''
       @ [CHR 0x27] @ toString mt @ [CHR 0x27] @ '' (ID: '' @ mid @ '').''"

text \<open>Step 3: the response for what the handler returned, a message or \<^verbatim>\<open>null\<close>.\<close>

definition noResponseSystemMessage :: "js_env \<Rightarrow> MCPRequest \<Rightarrow> MCPMessage" where
  "noResponseSystemMessage env request =
     \<lparr>id_m = ''system-response-'' @ string_of_int (dateNow env) @ ''-'' @ randomSuffix env,
      source = ''mcp_system'',
      conversationId = conversationId (message request),
      timestamp = newDate env,
      content = JStr (''El mensaje '' @ id_m (message request)
                  @ '' fue procesado pero no gener'' @ [CHR 0xC3, CHR 0xB3]
                  @ '' una respuesta directa.''),
      metadata = Some [(''originalMessageId'', JStr (id_m (message request))),
                       (''status'', JStr ''PROCESSED_NO_REPLY'')]\<rparr>"

definition build_response :: "js_env \<Rightarrow> MCPRequest \<Rightarrow> MCPMessage option \<Rightarrow> MCPResponse" where
  "build_response env request processedMessage =
     (case processedMessage of
        Some pm \<Rightarrow>
          \<lparr>originalMessageId = id_m (message request), responseMessage = pm,
           success = True, error = None\<rparr>
      | None \<Rightarrow>
          \<lparr>originalMessageId = id_m (message request),
           responseMessage = noResponseSystemMessage env request,
           success = True, error = None\<rparr>)"

text \<open>
  Step 4, the loop over \<^verbatim>\<open>responseInterceptors\<close> inside its \<^verbatim>\<open>try\<close>: each interceptor
  replaces \<^verbatim>\<open>mcpResponse\<close> by what it returns; the first one that throws ends the loop,
  the catch block only logs, and \<^verbatim>\<open>mcpResponse\<close> keeps its last value.
\<close>

fun run_interceptors ::
  "'w interceptor list \<Rightarrow> nat \<Rightarrow> MCPResponse \<Rightarrow> 'w \<Rightarrow> MCPResponse \<times> 'w \<times> call list" where
  "run_interceptors [] i mcpResponse w = (mcpResponse, w, [])"
| "run_interceptors (interceptor # fs) i mcpResponse w =
     (case interceptor mcpResponse w of
        (Inl e, w') \<Rightarrow> (mcpResponse, w', [Interceptor_call i])
      | (Inr r, w') \<Rightarrow>
          (case run_interceptors fs (Suc i) r w' of
             (r', w'', cs) \<Rightarrow> (r', w'', Interceptor_call i # cs)))"

text \<open>
  The part of \<^verbatim>\<open>processRequest\<close> from the call of the handler on (lines 104 to 156):
  \<open>cs\<close> is the list of calls made so far.
\<close>

definition invoke_handler ::
  "'w MessageControlPlane \<Rightarrow> js_env \<Rightarrow> MCPRequest \<Rightarrow> jsval \<Rightarrow> 'w handler \<Rightarrow> 'w \<Rightarrow> call list
     \<Rightarrow> (fault + MCPResponse) \<times> 'w \<times> call list" where
  "invoke_handler mcp env request mt handler w cs =
     (case handler (message request) w of
        (Inl e, w') \<Rightarrow>
          (case caught_message e unknown_handler_error of
             Inl f \<Rightarrow> (Inl f, w', cs @ [Handler_call (toString mt)])
           | Inr m \<Rightarrow>
               (Inr (buildErrorResponse env (id_m (message request)) ''HANDLER_ERROR'' m),
                w', cs @ [Handler_call (toString mt)]))
      | (Inr processedMessage, w') \<Rightarrow>
          (case run_interceptors (responseInterceptors mcp) 0
                  (build_response env request processedMessage) w' of
             (r, w'', cs') \<Rightarrow> (Inr r, w'', cs @ Handler_call (toString mt) # cs')))"

text \<open>
  The result of \<^verbatim>\<open>processRequest\<close> is the response the promise resolves with, or the
  fault it rejects with; then the plugin state and the calls made.
\<close>

definition processRequest ::
  "'w MessageControlPlane \<Rightarrow> js_env \<Rightarrow> MCPRequest \<Rightarrow> 'w
     \<Rightarrow> (fault + MCPResponse) \<times> 'w \<times> call list" where
  "processRequest mcp env request w =
     (case run_validators (requestValidators mcp) 0 request w of
        (Some e, w', cs) \<Rightarrow>
          (case caught_message e unknown_validation_error of
             Inl f \<Rightarrow> (Inl f, w', cs)
           | Inr m \<Rightarrow>
               (Inr (buildErrorResponse env (id_m (message request)) ''VALIDATION_ERROR'' m),
                w', cs))
      | (None, w', cs) \<Rightarrow>
          (let mt = messageType request in
           case get_handler (messageHandlers mcp) mt of
             None \<Rightarrow>
               (Inr (buildErrorResponse env (id_m (message request)) ''HANDLER_NOT_FOUND''
                       (handler_not_found_message mt (id_m (message request)))),
                w', cs)
           | Some handler \<Rightarrow> invoke_handler mcp env request mt handler w' cs))"

subsection \<open>\<^verbatim>\<open>sendMessage\<close>\<close>

definition sendMessage ::
  "'w MessageControlPlane \<Rightarrow> js_env \<Rightarrow> MCPMessage \<Rightarrow> 'w
     \<Rightarrow> (fault + MCPResponse) \<times> 'w \<times> call list" where
  "sendMessage mcp env m w = processRequest mcp env \<lparr>message = m\<rparr> w"

subsection \<open>The interceptor chain as a fold\<close>

text \<open>
  What the specification says of the interceptor chain: each interceptor receives the
  current response and returns a response, in registration order, each one's output
  feeding the next one's input. \<open>feed\<close> is one such step, on a response and a plugin state,
  and \<open>None\<close> once an interceptor has failed; the chain is the left-to-right fold of it.
\<close>

definition feed ::
  "'w interceptor \<Rightarrow> (MCPResponse \<times> 'w) option \<Rightarrow> (MCPResponse \<times> 'w) option" where
  "feed f acc =
     (case acc of
        None \<Rightarrow> None
      | Some (r, w) \<Rightarrow> (case f r w of (Inl e, w') \<Rightarrow> None | (Inr r', w') \<Rightarrow> Some (r', w')))"

definition interceptor_fold ::
  "'w interceptor list \<Rightarrow> MCPResponse \<Rightarrow> 'w \<Rightarrow> (MCPResponse \<times> 'w) option" where
  "interceptor_fold fs r w = fold feed fs (Some (r, w))"

text \<open>An interceptor that is a function of the response alone and never fails.\<close>

definition pure_interceptor :: "(MCPResponse \<Rightarrow> MCPResponse) \<Rightarrow> 'w interceptor" where
  "pure_interceptor g r w = (Inr (g r), w)"


section \<open>Example configurations\<close>

text \<open>
  Plugins and messages after those of \<^verbatim>\<open>__tests__/mcp.test.ts\<close>. The plugin state is a
  log of strings, as the \<^verbatim>\<open>callOrder\<close> array of the tests.
\<close>

definition createSampleMessage :: "string \<Rightarrow> jsval \<Rightarrow> string option \<Rightarrow> MCPMessage" where
  "createSampleMessage i c t =
     \<lparr>id_m = i, source = ''test-source'', conversationId = ''conv-test'', timestamp = 0,
      content = c,
      metadata = (case t of
                    None \<Rightarrow> None
                  | Some ty \<Rightarrow> if ty = [] then None else Some [(''type'', JStr ty)])\<rparr>"

definition env0 :: js_env where
  "env0 = \<lparr>dateNow = 1700000000000, randomSuffix = ''k3x9q'', newDate = 1700000000001\<rparr>"

definition logging_validator :: "string \<Rightarrow> string list validator" where
  "logging_validator name request w = (None, w @ [name])"


definition rejecting_validator :: "string list validator" where
  "rejecting_validator request w = (Some Thrown_Nullish, w)"

definition handled_handler :: "string list handler" where
  "handled_handler m w = (Inr (Some (m\<lparr>content := JStr ''handled''\<rparr>)), w @ [''handler''])"

definition null_handler :: "string list handler" where
  "null_handler m w = (Inr None, w @ [''handler''])"

definition failing_handler :: "string \<Rightarrow> string list handler" where
  "failing_handler msg m w = (Inl (Thrown_Error msg), w @ [''handler''])"

definition logging_interceptor :: "string \<Rightarrow> string list interceptor" where
  "logging_interceptor name r w = (Inr r, w @ [name])"

definition append_interceptor :: "string \<Rightarrow> string list interceptor" where
  "append_interceptor s r w =
     (Inr (r\<lparr>responseMessage :=
              (responseMessage r)\<lparr>content := JStr (toString (content (responseMessage r)) @ s)\<rparr>\<rparr>),
      w @ [s])"


definition mark_failed_interceptor :: "string list interceptor" where
  "mark_failed_interceptor r w = (Inr (r\<lparr>success := False\<rparr>), w)"

definition relabel_interceptor :: "string list interceptor" where
  "relabel_interceptor r w =
     (Inr (r\<lparr>responseMessage := (responseMessage r)\<lparr>source := ''audit''\<rparr>\<rparr>), w)"

text \<open>Configurations built with the registration methods, and requests for them.\<close>

definition mcp_typeB :: "string list MessageControlPlane" where
  "mcp_typeB =
     addResponseInterceptor
       (addResponseInterceptor
          (registerMessageHandler constructor ''typeB'' handled_handler)
          (append_interceptor ''A''))
       (append_interceptor ''B'')"


definition request_typeB :: MCPRequest where
  "request_typeB =
     \<lparr>message = createSampleMessage ''msg-intercept'' (JStr ''intercept content'') (Some ''typeB'')\<rparr>"



definition mcp_rejecting :: "string list MessageControlPlane" where
  "mcp_rejecting =
     registerMessageHandler
       (addRequestValidator
          (addRequestValidator constructor (logging_validator ''validator1''))
          rejecting_validator)
       ''typeA'' handled_handler"

definition request_typeA :: MCPRequest where
  "request_typeA =
     \<lparr>message = createSampleMessage ''msg-valid'' (JStr ''valid content'') (Some ''typeA'')\<rparr>"

definition mcp_error :: "string \<Rightarrow> string list MessageControlPlane" where
  "mcp_error msg =
     addResponseInterceptor
       (registerMessageHandler constructor ''error_message'' (failing_handler msg))
       (logging_interceptor ''interceptor1'')"

definition request_error :: MCPRequest where
  "request_error =
     \<lparr>message = createSampleMessage ''msg-err'' (JStr ''error test'') (Some ''error_message'')\<rparr>"

definition mcp_null :: "string list interceptor list \<Rightarrow> string list MessageControlPlane" where
  "mcp_null fs =
     (registerMessageHandler constructor ''null_handler_message'' null_handler)
       \<lparr>responseInterceptors := fs\<rparr>"

definition request_null :: MCPRequest where
  "request_null =
     \<lparr>message = createSampleMessage ''msg-null'' (JStr ''null test'') (Some ''null_handler_message'')\<rparr>"

definition mcp_default ::
  "string list handler \<Rightarrow> string list interceptor list \<Rightarrow> string list MessageControlPlane" where
  "mcp_default h fs =
     (registerMessageHandler constructor ''default'' h)\<lparr>responseInterceptors := fs\<rparr>"

definition request_default :: MCPRequest where
  "request_default = \<lparr>message = createSampleMessage ''msg-default'' (JStr ''default test'') None\<rparr>"




section \<open>Properties\<close>

subsection \<open>The two loops\<close>

lemma run_validators_pass:
  "run_validators vs i request w = (None, w', cs) \<Longrightarrow>
   cs = map Validator_call [i..<i + length vs]"
proof (induction vs arbitrary: i w cs)
  case Nil
  then show ?case by simp
next
  case (Cons v vs)
  obtain o1 w1 where v: "v request w = (o1, w1)" by (cases "v request w")
  with Cons.prems have o1: "o1 = None" by (cases o1) auto
  obtain r2 w2 cs2 where rest: "run_validators vs (Suc i) request w1 = (r2, w2, cs2)"
    by (cases "run_validators vs (Suc i) request w1")
  from Cons.prems v o1 rest have "r2 = None" and "w2 = w'" and cs: "cs = Validator_call i # cs2"
    by auto
  with rest have "run_validators vs (Suc i) request w1 = (None, w', cs2)" by simp
  then have "cs2 = map Validator_call [Suc i..<Suc i + length vs]" by (rule Cons.IH)
  with cs show ?case by (simp add: upt_rec)
qed

lemma run_validators_fail:
  "run_validators vs i request w = (Some e, w', cs) \<Longrightarrow>
   \<exists>k wk. k < length vs \<and>
     run_validators (take k vs) i request w = (None, wk, map Validator_call [i..<i + k]) \<and>
     (vs ! k) request wk = (Some e, w') \<and>
     cs = map Validator_call [i..<i + Suc k]"
proof (induction vs arbitrary: i w cs)
  case Nil
  then show ?case by simp
next
  case (Cons v vs)
  obtain o1 w1 where v: "v request w = (o1, w1)" by (cases "v request w")
  show ?case
  proof (cases o1)
    case (Some e1)
    with Cons.prems v have "e1 = e" "w1 = w'" "cs = [Validator_call i]" by auto
    with v Some have
      "0 < length (v # vs) \<and>
       run_validators (take 0 (v # vs)) i request w = (None, w, map Validator_call [i..<i + 0]) \<and>
       ((v # vs) ! 0) request w = (Some e, w') \<and>
       cs = map Validator_call [i..<i + Suc 0]"
      by simp
    then show ?thesis by blast
  next
    case None
    obtain r2 w2 cs2 where rest: "run_validators vs (Suc i) request w1 = (r2, w2, cs2)"
      by (cases "run_validators vs (Suc i) request w1")
    from Cons.prems v None rest
    have r2: "r2 = Some e" and w2: "w2 = w'" and cs: "cs = Validator_call i # cs2" by auto
    from Cons.IH rest r2 w2 obtain k wk where k: "k < length vs"
      and pre: "run_validators (take k vs) (Suc i) request w1
                  = (None, wk, map Validator_call [Suc i..<Suc i + k])"
      and at: "(vs ! k) request wk = (Some e, w')"
      and cs2: "cs2 = map Validator_call [Suc i..<Suc i + Suc k]"
      by blast
    from v None pre have
      "run_validators (take (Suc k) (v # vs)) i request w
         = (None, wk, map Validator_call [i..<i + Suc k])"
      by (simp add: upt_rec)
    moreover from cs cs2 have "cs = map Validator_call [i..<i + Suc (Suc k)]"
      by (simp add: upt_rec)
    ultimately have
      "Suc k < length (v # vs) \<and>
       run_validators (take (Suc k) (v # vs)) i request w
         = (None, wk, map Validator_call [i..<i + Suc k]) \<and>
       ((v # vs) ! Suc k) request wk = (Some e, w') \<and>
       cs = map Validator_call [i..<i + Suc (Suc k)]"
      using k at by simp
    then show ?thesis by blast
  qed
qed

lemma fold_feed_None: "fold feed fs None = None"
  by (induction fs) (simp_all add: feed_def)

lemma run_interceptors_complete:
  "interceptor_fold fs r w = Some (r', w') \<Longrightarrow>
   run_interceptors fs i r w = (r', w', map Interceptor_call [i..<i + length fs])"
proof (induction fs arbitrary: i r w)
  case Nil
  then show ?case by (simp add: interceptor_fold_def)
next
  case (Cons f fs)
  obtain o1 w1 where f: "f r w = (o1, w1)" by (cases "f r w")
  show ?case
  proof (cases o1)
    case (Inl e)
    with f Cons.prems show ?thesis
      by (simp add: interceptor_fold_def feed_def fold_feed_None)
  next
    case (Inr r1)
    with f Cons.prems have "interceptor_fold fs r1 w1 = Some (r', w')"
      by (simp add: interceptor_fold_def feed_def)
    then have "run_interceptors fs (Suc i) r1 w1
                 = (r', w', map Interceptor_call [Suc i..<Suc i + length fs])"
      by (rule Cons.IH)
    with f Inr show ?thesis by (simp add: upt_rec)
  qed
qed


subsection \<open>The fields of the responses the dispatcher builds\<close>

lemma buildErrorResponse_fields:
  "originalMessageId (buildErrorResponse env i c m) = i"
  "success (buildErrorResponse env i c m) = False"
  "error (buildErrorResponse env i c m) = Some \<lparr>code = c, message_e = m\<rparr>"
  "source (responseMessage (buildErrorResponse env i c m)) = ''mcp_error_handler''"
  "conversationId (responseMessage (buildErrorResponse env i c m)) = ''conv-for-'' @ i"
  "content (responseMessage (buildErrorResponse env i c m))
     = JObj [(''error'', JStr c), (''message'', JStr m)]"
  "metadata (responseMessage (buildErrorResponse env i c m))
     = Some [(''originalMessageId'', JStr i)]"
  by (simp_all add: buildErrorResponse_def)

lemma build_response_fields:
  "originalMessageId (build_response env request p) = id_m (message request)"
  "success (build_response env request p) = True"
  "error (build_response env request p) = None"
  "responseMessage (build_response env request (Some pm)) = pm"
  "responseMessage (build_response env request None) = noResponseSystemMessage env request"
  by (simp_all add: build_response_def split: option.splits)


subsection \<open>Registration appends\<close>

lemma registration_order:
  "requestValidators (addRequestValidator mcp v) = requestValidators mcp @ [v]"
  "responseInterceptors (addResponseInterceptor mcp f) = responseInterceptors mcp @ [f]"
  "messageHandlers (registerMessageHandler mcp k h) k = Some h"
  by (simp_all add: addRequestValidator_def addResponseInterceptor_def
        registerMessageHandler_def)

subsection \<open>\<^verbatim>\<open>sendMessage\<close>\<close>

text \<open>
  C9. For every message and every configuration of validators, handlers and interceptors,
  \<^verbatim>\<open>sendMessage(m)\<close> gives what \<^verbatim>\<open>processRequest({message: m})\<close> gives, in the same
  environment and plugin state: the same response or fault, the same plugin state
  afterwards and the same calls of plugins. It wraps the message in a request and does
  nothing else.
\<close>

theorem sendMessage_is_processRequest:
  "sendMessage mcp env m w = processRequest mcp env \<lparr>message = m\<rparr> w"
  by (simp add: sendMessage_def)

subsection \<open>No handler for the key\<close>



subsection \<open>Facts about the stages\<close>

lemma processRequest_handled:
  assumes "run_validators (requestValidators mcp) 0 request w = (None, w1, cs)"
    and "get_handler (messageHandlers mcp) (messageType request) = Some h"
    and "h (message request) w1 = (Inr p, w2)"
  shows "processRequest mcp env request w =
           (case run_interceptors (responseInterceptors mcp) 0
                   (build_response env request p) w2 of
              (r, w3, cs3) \<Rightarrow>
                (Inr r, w3, cs @ Handler_call (toString (messageType request)) # cs3))"
  using assms by (simp add: processRequest_def Let_def invoke_handler_def)

lemma interceptor_fold_split:
  assumes "interceptor_fold (pre @ g # post) r0 w0 = Some (r, w)"
  shows "\<exists>r1 w1 r2 w2. interceptor_fold pre r0 w0 = Some (r1, w1) \<and>
           g r1 w1 = (Inr r2, w2) \<and> interceptor_fold post r2 w2 = Some (r, w)"
proof (cases "interceptor_fold pre r0 w0")
  case None
  with assms show ?thesis
    by (simp add: interceptor_fold_def feed_def fold_feed_None)
next
  case (Some a)
  obtain r1 w1 where a: "a = (r1, w1)" by (cases a)
  obtain o2 w2 where g: "g r1 w1 = (o2, w2)" by (cases "g r1 w1")
  show ?thesis
  proof (cases o2)
    case (Inl e)
    with assms Some a g show ?thesis
      by (simp add: interceptor_fold_def feed_def fold_feed_None)
  next
    case (Inr r2)
    with assms Some a g have "interceptor_fold post r2 w2 = Some (r, w)"
      by (simp add: interceptor_fold_def feed_def)
    with Some a g Inr show ?thesis by simp
  qed
qed

lemma interceptor_fold_pure:
  "interceptor_fold (map pure_interceptor gs) r w = Some (fold (\<lambda>g x. g x) gs r, w)"
  by (induction gs arbitrary: r) (simp_all add: interceptor_fold_def feed_def pure_interceptor_def)







subsection \<open>The interceptor chain\<close>

text \<open>
  C8. When a response has been produced (the validators passed, the handler for the key
  returned a message or \<^verbatim>\<open>null\<close>) and every interceptor completes on the response it
  receives, \<^verbatim>\<open>processRequest\<close> returns the left-to-right fold of the interceptors over
  that response: the interceptors are called once each in the order of the list, which is
  the order of registration; an interceptor anywhere in the list receives the fold of
  those before it, and its output goes through those after it; and for interceptors that
  are functions of the response alone the result is the fold of these functions.
\<close>

theorem interceptors_compose:
  assumes "run_validators (requestValidators mcp) 0 request w = (None, w1, cs)"
    and "get_handler (messageHandlers mcp) (messageType request) = Some h"
    and "h (message request) w1 = (Inr p, w2)"
    and "interceptor_fold (responseInterceptors mcp) (build_response env request p) w2
           = Some (r, w3)"
  shows "processRequest mcp env request w =
           (Inr r, w3,
            cs @ Handler_call (toString (messageType request))
                 # map Interceptor_call [0..<length (responseInterceptors mcp)]) \<and>
         (\<forall>pre g post. responseInterceptors mcp = pre @ g # post \<longrightarrow>
            (\<exists>r1 s1 r2 s2.
               interceptor_fold pre (build_response env request p) w2 = Some (r1, s1) \<and>
               g r1 s1 = (Inr r2, s2) \<and>
               interceptor_fold post r2 s2 = Some (r, w3))) \<and>
         (\<forall>gs. responseInterceptors mcp = map pure_interceptor gs \<longrightarrow>
            r = fold (\<lambda>g x. g x) gs (build_response env request p))"
proof (intro conjI allI impI)
  from assms(4) have
    "run_interceptors (responseInterceptors mcp) 0 (build_response env request p) w2
       = (r, w3, map Interceptor_call [0..<0 + length (responseInterceptors mcp)])"
    by (rule run_interceptors_complete)
  with processRequest_handled [OF assms(1-3), of env]
  show "processRequest mcp env request w =
          (Inr r, w3,
           cs @ Handler_call (toString (messageType request))
                # map Interceptor_call [0..<length (responseInterceptors mcp)])"
    by simp
next
  fix pre g post
  assume "responseInterceptors mcp = pre @ g # post"
  with assms(4) have
    "interceptor_fold (pre @ g # post) (build_response env request p) w2 = Some (r, w3)"
    by simp
  then show "\<exists>r1 s1 r2 s2.
      interceptor_fold pre (build_response env request p) w2 = Some (r1, s1) \<and>
      g r1 s1 = (Inr r2, s2) \<and> interceptor_fold post r2 s2 = Some (r, w3)"
    by (rule interceptor_fold_split)
next
  fix gs :: "(MCPResponse \<Rightarrow> MCPResponse) list"
  assume "responseInterceptors mcp = map pure_interceptor gs"
  with assms(4) show "r = fold (\<lambda>g x. g x) gs (build_response env request p)"
    by (simp add: interceptor_fold_pure)
qed

theorem interceptors_compose_witness:
  "run_validators (requestValidators mcp_typeB) 0 request_typeB [] = (None, [], []) \<and>
   get_handler (messageHandlers mcp_typeB) (messageType request_typeB) = Some handled_handler \<and>
   handled_handler (message request_typeB) []
     = (Inr (Some ((message request_typeB)\<lparr>content := JStr ''handled''\<rparr>)), [''handler'']) \<and>
   interceptor_fold (responseInterceptors mcp_typeB)
     (build_response env0 request_typeB
        (Some ((message request_typeB)\<lparr>content := JStr ''handled''\<rparr>))) [''handler'']
     = Some (\<lparr>originalMessageId = ''msg-intercept'',
              responseMessage = (message request_typeB)\<lparr>content := JStr ''handledAB''\<rparr>,
              success = True, error = None\<rparr>,
             [''handler'', ''A'', ''B'']) \<and>
   processRequest mcp_typeB env0 request_typeB []
     = (Inr \<lparr>originalMessageId = ''msg-intercept'',
            responseMessage = (message request_typeB)\<lparr>content := JStr ''handledAB''\<rparr>,
            success = True, error = None\<rparr>,
        [''handler'', ''A'', ''B''],
        [Handler_call ''typeB'', Interceptor_call 0, Interceptor_call 1])"
proof -
  have mt: "messageType request_typeB = JStr ''typeB''"
    by (simp add: messageType_def metadata_type_def request_typeB_def createSampleMessage_def
          js_or_def)
  have h1: "run_validators (requestValidators mcp_typeB) 0 request_typeB [] = (None, [], [])"
    by (simp add: mcp_typeB_def addResponseInterceptor_def registerMessageHandler_def
          constructor_def)
  have h2: "get_handler (messageHandlers mcp_typeB) (messageType request_typeB)
              = Some handled_handler"
    by (simp add: mt get_handler_def mcp_typeB_def addResponseInterceptor_def
          registerMessageHandler_def constructor_def)
  have h3: "handled_handler (message request_typeB) []
              = (Inr (Some ((message request_typeB)\<lparr>content := JStr ''handled''\<rparr>)),
                 [''handler''])"
    by (simp add: handled_handler_def)
  have h4: "interceptor_fold (responseInterceptors mcp_typeB)
              (build_response env0 request_typeB
                 (Some ((message request_typeB)\<lparr>content := JStr ''handled''\<rparr>))) [''handler'']
            = Some (\<lparr>originalMessageId = ''msg-intercept'',
                     responseMessage = (message request_typeB)\<lparr>content := JStr ''handledAB''\<rparr>,
                     success = True, error = None\<rparr>,
                    [''handler'', ''A'', ''B''])"
    by (simp add: interceptor_fold_def feed_def mcp_typeB_def addResponseInterceptor_def
          registerMessageHandler_def constructor_def append_interceptor_def build_response_def
          request_typeB_def createSampleMessage_def)
  have len: "length (responseInterceptors mcp_typeB) = Suc (Suc 0)"
    by (simp add: mcp_typeB_def addResponseInterceptor_def registerMessageHandler_def
          constructor_def)
  from interceptors_compose [OF h1 h2 h3 h4]
  have "processRequest mcp_typeB env0 request_typeB []
     = (Inr \<lparr>originalMessageId = ''msg-intercept'',
            responseMessage = (message request_typeB)\<lparr>content := JStr ''handledAB''\<rparr>,
            success = True, error = None\<rparr>,
        [''handler'', ''A'', ''B''],
        [Handler_call ''typeB'', Interceptor_call 0, Interceptor_call 1])"
    by (simp add: mt len upt_rec)
  with h1 h2 h3 h4 show ?thesis by blast
qed



subsection \<open>The message-type key\<close>





subsection \<open>Evaluation of the examples\<close>

lemmas registration_defs =
  constructor_def registerMessageHandler_def addRequestValidator_def addResponseInterceptor_def

lemmas dispatch_defs =
  processRequest_def invoke_handler_def Let_def get_handler_def messageType_def
  metadata_type_def js_or_def caught_message_def createSampleMessage_def

subsection \<open>A validator that fails\<close>

lemma validator_failure:
  assumes "run_validators (requestValidators mcp) 0 request w = (Some e, w', cs)"
  shows "\<exists>k wk. k < length (requestValidators mcp) \<and>
           run_validators (take k (requestValidators mcp)) 0 request w
             = (None, wk, map Validator_call [0..<k]) \<and>
           (requestValidators mcp ! k) request wk = (Some e, w') \<and>
           snd (processRequest mcp env request w) = (w', map Validator_call [0..<Suc k]) \<and>
           (e \<noteq> Thrown_Nullish \<longrightarrow>
              (\<exists>m. fst (processRequest mcp env request w)
                      = Inr (buildErrorResponse env (id_m (message request))
                               ''VALIDATION_ERROR'' m))) \<and>
           (e = Thrown_Nullish \<longrightarrow> fst (processRequest mcp env request w) = Inl TypeError)"
proof -
  from run_validators_fail [OF assms] obtain k wk
    where k: "k < length (requestValidators mcp)"
      and pre: "run_validators (take k (requestValidators mcp)) 0 request w
                  = (None, wk, map Validator_call [0..<0 + k])"
      and at: "(requestValidators mcp ! k) request wk = (Some e, w')"
      and cs: "cs = map Validator_call [0..<0 + Suc k]"
    by blast
  have "snd (processRequest mcp env request w) = (w', cs)"
    using assms by (cases e) (simp_all add: processRequest_def caught_message_def)
  moreover have "e \<noteq> Thrown_Nullish \<longrightarrow>
      (\<exists>m. fst (processRequest mcp env request w)
              = Inr (buildErrorResponse env (id_m (message request)) ''VALIDATION_ERROR'' m))"
    using assms by (cases e) (auto simp add: processRequest_def caught_message_def)
  moreover have "e = Thrown_Nullish \<longrightarrow> fst (processRequest mcp env request w) = Inl TypeError"
    using assms by (simp add: processRequest_def caught_message_def)
  ultimately show ?thesis using k pre at cs by auto
qed

text \<open>
  C2. A validator that rejects with \<^verbatim>\<open>null\<close> or \<^verbatim>\<open>undefined\<close>: the validators before it
  have run in order, it is the last plugin called, and \<^verbatim>\<open>processRequest\<close> ends with a
  TypeError, the catch block reading \<^verbatim>\<open>error.message\<close> of the nullish value, where the
  claim has a response with the code \<^verbatim>\<open>VALIDATION_ERROR\<close>. For every other thrown value
  the lemma \<open>validator_failure\<close> gives what the claim says.
\<close>

theorem nullish_validator_fault:
  "processRequest mcp_rejecting env0 request_typeA []
     = (Inl TypeError, [''validator1''], [Validator_call 0, Validator_call 1])"
  by (simp add: mcp_rejecting_def request_typeA_def registration_defs dispatch_defs
        logging_validator_def rejecting_validator_def)

subsection \<open>A handler that fails\<close>

text \<open>
  C5 as the claim states it fails for an error with an empty message, such as
  \<^verbatim>\<open>new Error()\<close>: the message of the response is the fallback text.
\<close>

theorem handler_error_message_counterexample:
  "failing_handler [] (message request_error) [] = (Inl (Thrown_Error []), [''handler'']) \<and>
   fst (processRequest (mcp_error []) env0 request_error [])
     = Inr (buildErrorResponse env0 ''msg-err'' ''HANDLER_ERROR''
              ''Error desconocido en el manejador.'') \<and>
   error (buildErrorResponse env0 ''msg-err'' ''HANDLER_ERROR''
            ''Error desconocido en el manejador.'')
     = Some \<lparr>code = ''HANDLER_ERROR'', message_e = ''Error desconocido en el manejador.''\<rparr>"
  by (simp add: mcp_error_def request_error_def registration_defs dispatch_defs
        failing_handler_def unknown_handler_error_def buildErrorResponse_fields)

text \<open>
  C5, amended. When the validators have passed and the handler for the key throws a value
  that is not nullish, \<^verbatim>\<open>processRequest\<close> returns the response of
  \<^verbatim>\<open>buildErrorResponse\<close> with \<^verbatim>\<open>success = false\<close> and the code \<^verbatim>\<open>HANDLER_ERROR\<close>;
  its message is the message of the thrown error when that is not empty, and the text
  \<^verbatim>\<open>Error desconocido en el manejador.\<close> when the thrown value has an empty message or
  none. The handler is the last plugin called: no interceptor is run.
\<close>

theorem handler_error:
  assumes "run_validators (requestValidators mcp) 0 request w = (None, w1, cs)"
    and "get_handler (messageHandlers mcp) (messageType request) = Some h"
    and "h (message request) w1 = (Inl e, w2)"
    and "e \<noteq> Thrown_Nullish"
  shows "\<exists>r m. processRequest mcp env request w
                 = (Inr r, w2, cs @ [Handler_call (toString (messageType request))]) \<and>
           r = buildErrorResponse env (id_m (message request)) ''HANDLER_ERROR'' m \<and>
           success r = False \<and>
           error r = Some \<lparr>code = ''HANDLER_ERROR'', message_e = m\<rparr> \<and>
           (\<forall>s. e = Thrown_Error s \<and> s \<noteq> [] \<longrightarrow> m = s) \<and>
           (e = Thrown_Error [] \<or> e = Thrown_Other \<longrightarrow> m = unknown_handler_error) \<and>
           cs = map Validator_call [0..<length (requestValidators mcp)]"
proof -
  from assms(1) have cs: "cs = map Validator_call [0..<0 + length (requestValidators mcp)]"
    by (rule run_validators_pass)
  from assms(4) obtain m where m: "caught_message e unknown_handler_error = Inr m"
    and m1: "\<forall>s. e = Thrown_Error s \<and> s \<noteq> [] \<longrightarrow> m = s"
    and m2: "e = Thrown_Error [] \<or> e = Thrown_Other \<longrightarrow> m = unknown_handler_error"
    by (cases e) (simp_all add: caught_message_def)
  from assms(1-3) m have
    "processRequest mcp env request w
       = (Inr (buildErrorResponse env (id_m (message request)) ''HANDLER_ERROR'' m), w2,
          cs @ [Handler_call (toString (messageType request))])"
    by (simp add: processRequest_def Let_def invoke_handler_def)
  with m1 m2 cs show ?thesis by (simp add: buildErrorResponse_fields)
qed

theorem handler_error_witness:
  "run_validators (requestValidators (mcp_error ''Handler failed'')) 0 request_error []
     = (None, [], []) \<and>
   get_handler (messageHandlers (mcp_error ''Handler failed'')) (messageType request_error)
     = Some (failing_handler ''Handler failed'') \<and>
   failing_handler ''Handler failed'' (message request_error) []
     = (Inl (Thrown_Error ''Handler failed''), [''handler'']) \<and>
   Thrown_Error ''Handler failed'' \<noteq> Thrown_Nullish \<and>
   processRequest (mcp_error ''Handler failed'') env0 request_error []
     = (Inr (buildErrorResponse env0 ''msg-err'' ''HANDLER_ERROR'' ''Handler failed''),
        [''handler''], [Handler_call ''error_message''])"
proof -
  have h1: "run_validators (requestValidators (mcp_error ''Handler failed'')) 0 request_error []
              = (None, [], [])"
    by (simp add: mcp_error_def registration_defs)
  have h2: "get_handler (messageHandlers (mcp_error ''Handler failed''))
              (messageType request_error) = Some (failing_handler ''Handler failed'')"
    by (simp add: mcp_error_def request_error_def registration_defs dispatch_defs)
  have h3: "failing_handler ''Handler failed'' (message request_error) []
              = (Inl (Thrown_Error ''Handler failed''), [''handler''])"
    by (simp add: failing_handler_def)
  have h4: "Thrown_Error ''Handler failed'' \<noteq> Thrown_Nullish" by simp
  have mt: "toString (messageType request_error) = ''error_message''"
    by (simp add: request_error_def dispatch_defs)
  have i: "id_m (message request_error) = ''msg-err''"
    by (simp add: request_error_def createSampleMessage_def)
  from handler_error [OF h1 h2 h3 h4, of env0]
  have "processRequest (mcp_error ''Handler failed'') env0 request_error []
     = (Inr (buildErrorResponse env0 ''msg-err'' ''HANDLER_ERROR'' ''Handler failed''),
        [''handler''], [Handler_call ''error_message''])"
    by (auto simp add: mt i)
  with h1 h2 h3 h4 show ?thesis by blast
qed

subsection \<open>A handler that returns \<^verbatim>\<open>null\<close>\<close>

text \<open>
  C4 as the claim states it fails when an interceptor changes the response: here the
  handler returns \<^verbatim>\<open>null\<close> and the interceptor replaces the source of the response
  message, so the response returned has not the source \<^verbatim>\<open>mcp_system\<close>.
\<close>

theorem no_reply_counterexample:
  "null_handler (message request_null) [] = (Inr None, [''handler'']) \<and>
   fst (processRequest (mcp_null [relabel_interceptor]) env0 request_null [])
     = Inr \<lparr>originalMessageId = ''msg-null'',
            responseMessage = (noResponseSystemMessage env0 request_null)\<lparr>source := ''audit''\<rparr>,
            success = True, error = None\<rparr> \<and>
   source ((noResponseSystemMessage env0 request_null)\<lparr>source := ''audit''\<rparr>) \<noteq> ''mcp_system''"
  by (simp add: mcp_null_def request_null_def registration_defs dispatch_defs
        null_handler_def relabel_interceptor_def build_response_def)

text \<open>
  C4, amended. When the validators have passed and the handler for the key returns
  \<^verbatim>\<open>null\<close>, the response handed to the interceptor chain has \<^verbatim>\<open>success = true\<close>, no
  error, and a response message with the source \<^verbatim>\<open>mcp_system\<close>, the conversation of the
  inbound message, a content that says the message was processed without a direct reply,
  and the metadata \<^verbatim>\<open>originalMessageId\<close> (the id of the inbound message) and
  \<^verbatim>\<open>status\<close> (\<^verbatim>\<open>PROCESSED_NO_REPLY\<close>). \<^verbatim>\<open>processRequest\<close> returns what the interceptor
  chain makes of that response, and that response itself when no interceptor is registered.
\<close>

theorem no_reply_response:
  assumes "run_validators (requestValidators mcp) 0 request w = (None, w1, cs)"
    and "get_handler (messageHandlers mcp) (messageType request) = Some h"
    and "h (message request) w1 = (Inr None, w2)"
  shows "fst (processRequest mcp env request w)
           = Inr (fst (run_interceptors (responseInterceptors mcp) 0
                         (build_response env request None) w2)) \<and>
         (responseInterceptors mcp = [] \<longrightarrow>
            processRequest mcp env request w
              = (Inr (build_response env request None), w2,
                 cs @ [Handler_call (toString (messageType request))])) \<and>
         success (build_response env request None) = True \<and>
         error (build_response env request None) = None \<and>
         originalMessageId (build_response env request None) = id_m (message request) \<and>
         source (responseMessage (build_response env request None)) = ''mcp_system'' \<and>
         conversationId (responseMessage (build_response env request None))
           = conversationId (message request) \<and>
         content (responseMessage (build_response env request None))
           = JStr (''El mensaje '' @ id_m (message request)
                   @ '' fue procesado pero no gener'' @ [CHR 0xC3, CHR 0xB3]
                   @ '' una respuesta directa.'') \<and>
         metadata (responseMessage (build_response env request None))
           = Some [(''originalMessageId'', JStr (id_m (message request))),
                   (''status'', JStr ''PROCESSED_NO_REPLY'')]"
proof -
  have "fst (processRequest mcp env request w)
          = Inr (fst (run_interceptors (responseInterceptors mcp) 0
                        (build_response env request None) w2))"
    using processRequest_handled [OF assms, of env] by (simp split: prod.splits)
  moreover have "responseInterceptors mcp = [] \<longrightarrow>
      processRequest mcp env request w
        = (Inr (build_response env request None), w2,
           cs @ [Handler_call (toString (messageType request))])"
    using processRequest_handled [OF assms, of env] by simp
  ultimately show ?thesis
    by (simp add: build_response_fields noResponseSystemMessage_def)
qed

theorem no_reply_response_witness:
  "run_validators (requestValidators (mcp_null [])) 0 request_null [] = (None, [], []) \<and>
   get_handler (messageHandlers (mcp_null [])) (messageType request_null) = Some null_handler \<and>
   null_handler (message request_null) [] = (Inr None, [''handler'']) \<and>
   responseInterceptors (mcp_null []) = [] \<and>
   processRequest (mcp_null []) env0 request_null []
     = (Inr (build_response env0 request_null None), [''handler''],
        [Handler_call ''null_handler_message'']) \<and>
   source (responseMessage (build_response env0 request_null None)) = ''mcp_system'' \<and>
   metadata (responseMessage (build_response env0 request_null None))
     = Some [(''originalMessageId'', JStr ''msg-null''), (''status'', JStr ''PROCESSED_NO_REPLY'')]"
proof -
  have h1: "run_validators (requestValidators (mcp_null [])) 0 request_null [] = (None, [], [])"
    by (simp add: mcp_null_def registration_defs)
  have h2: "get_handler (messageHandlers (mcp_null [])) (messageType request_null)
              = Some null_handler"
    by (simp add: mcp_null_def request_null_def registration_defs dispatch_defs)
  have h3: "null_handler (message request_null) [] = (Inr None, [''handler''])"
    by (simp add: null_handler_def)
  have h4: "responseInterceptors (mcp_null []) = []"
    by (simp add: mcp_null_def registration_defs)
  have mt: "toString (messageType request_null) = ''null_handler_message''"
    by (simp add: request_null_def dispatch_defs)
  have i: "id_m (message request_null) = ''msg-null''"
    by (simp add: request_null_def createSampleMessage_def)
  from no_reply_response [OF h1 h2 h3, of env0] h4
  have "processRequest (mcp_null []) env0 request_null []
     = (Inr (build_response env0 request_null None), [''handler''],
        [Handler_call ''null_handler_message'']) \<and>
   source (responseMessage (build_response env0 request_null None)) = ''mcp_system'' \<and>
   metadata (responseMessage (build_response env0 request_null None))
     = Some [(''originalMessageId'', JStr ''msg-null''), (''status'', JStr ''PROCESSED_NO_REPLY'')]"
    by (simp add: mt i)
  with h1 h2 h3 h4 show ?thesis by blast
qed

subsection \<open>A message without a type\<close>

text \<open>
  C7 as the claim states it fails in its last part: with a handler registered under
  \<^verbatim>\<open>default\<close> alone, no validator and a message without metadata, the response has
  \<^verbatim>\<open>success = false\<close> when that handler throws, and also when the handler returns a
  message and an interceptor clears the flag.
\<close>

theorem untyped_message_counterexample:
  "metadata (message request_default) = None \<and>
   fst (processRequest (mcp_default (failing_handler ''Handler failed'') []) env0
          request_default [])
     = Inr (buildErrorResponse env0 ''msg-default'' ''HANDLER_ERROR'' ''Handler failed'') \<and>
   success (buildErrorResponse env0 ''msg-default'' ''HANDLER_ERROR'' ''Handler failed'') = False \<and>
   fst (processRequest (mcp_default handled_handler [mark_failed_interceptor]) env0
          request_default [])
     = Inr \<lparr>originalMessageId = ''msg-default'',
            responseMessage = (message request_default)\<lparr>content := JStr ''handled''\<rparr>,
            success = False, error = None\<rparr>"
  by (simp add: mcp_default_def request_default_def registration_defs dispatch_defs
        failing_handler_def handled_handler_def mark_failed_interceptor_def build_response_def
        buildErrorResponse_fields)

text \<open>
  C7, amended. When the message has no metadata, or metadata without a \<^verbatim>\<open>type\<close> entry,
  the message-type key is the string \<^verbatim>\<open>default\<close>. With a handler registered under
  \<^verbatim>\<open>default\<close> and the validators passing, that handler is the one invoked, on the inbound
  message, and \<^verbatim>\<open>processRequest\<close> is the handler stage run with it. Whenever that handler
  completes, the response handed to the interceptor chain has \<^verbatim>\<open>success = true\<close> and no
  error; \<^verbatim>\<open>processRequest\<close> returns what the interceptor chain makes of it, and that
  response itself when no interceptor is registered.
\<close>

theorem untyped_message_uses_default:
  assumes "metadata (message request) = None \<or>
           (\<exists>ps. metadata (message request) = Some ps \<and> map_of ps ''type'' = None)"
  shows "messageType request = JStr ''default'' \<and>
         (messageHandlers mcp ''default'' = Some h \<and>
          run_validators (requestValidators mcp) 0 request w = (None, w1, cs) \<longrightarrow>
            processRequest mcp env request w
              = invoke_handler mcp env request (JStr ''default'') h w1 cs \<and>
            Handler_call ''default'' \<in> set (snd (snd (processRequest mcp env request w))) \<and>
            (\<forall>p w2. h (message request) w1 = (Inr p, w2) \<longrightarrow>
               fst (processRequest mcp env request w)
                 = Inr (fst (run_interceptors (responseInterceptors mcp) 0
                               (build_response env request p) w2)) \<and>
               success (build_response env request p) = True \<and>
               error (build_response env request p) = None \<and>
               (responseInterceptors mcp = [] \<longrightarrow>
                  fst (processRequest mcp env request w)
                    = Inr (build_response env request p))))"
proof (intro conjI impI allI)
  from assms show mt: "messageType request = JStr ''default''"
    by (auto simp add: messageType_def metadata_type_def js_or_def)
  assume reg: "messageHandlers mcp ''default'' = Some h \<and>
    run_validators (requestValidators mcp) 0 request w = (None, w1, cs)"
  then have v: "run_validators (requestValidators mcp) 0 request w = (None, w1, cs)"
    and g: "get_handler (messageHandlers mcp) (messageType request) = Some h"
    by (simp_all add: mt get_handler_def)
  from v g show run: "processRequest mcp env request w
      = invoke_handler mcp env request (JStr ''default'') h w1 cs"
    by (simp add: processRequest_def Let_def mt)
  show "Handler_call ''default'' \<in> set (snd (snd (processRequest mcp env request w)))"
    unfolding run invoke_handler_def
    by (simp split: prod.splits sum.splits)
  fix p w2
  assume h: "h (message request) w1 = (Inr p, w2)"
  from processRequest_handled [OF v g h, of env]
  show "fst (processRequest mcp env request w)
          = Inr (fst (run_interceptors (responseInterceptors mcp) 0
                        (build_response env request p) w2))"
    by (simp split: prod.splits)
  show "success (build_response env request p) = True"
    by (simp add: build_response_fields)
  show "error (build_response env request p) = None"
    by (simp add: build_response_fields)
  assume "responseInterceptors mcp = []"
  with processRequest_handled [OF v g h, of env]
  show "fst (processRequest mcp env request w) = Inr (build_response env request p)"
    by simp
qed

theorem untyped_message_uses_default_witness:
  "(metadata (message request_default) = None \<or>
    (\<exists>ps. metadata (message request_default) = Some ps \<and> map_of ps ''type'' = None)) \<and>
   messageType request_default = JStr ''default'' \<and>
   messageHandlers (mcp_default handled_handler []) ''default'' = Some handled_handler \<and>
   run_validators (requestValidators (mcp_default handled_handler [])) 0 request_default []
     = (None, [], []) \<and>
   handled_handler (message request_default) []
     = (Inr (Some ((message request_default)\<lparr>content := JStr ''handled''\<rparr>)), [''handler'']) \<and>
   responseInterceptors (mcp_default handled_handler []) = [] \<and>
   fst (processRequest (mcp_default handled_handler []) env0 request_default [])
     = Inr (build_response env0 request_default
              (Some ((message request_default)\<lparr>content := JStr ''handled''\<rparr>))) \<and>
   success (build_response env0 request_default
              (Some ((message request_default)\<lparr>content := JStr ''handled''\<rparr>))) = True"
proof -
  have h0: "metadata (message request_default) = None \<or>
      (\<exists>ps. metadata (message request_default) = Some ps \<and> map_of ps ''type'' = None)"
    by (simp add: request_default_def createSampleMessage_def)
  have h1: "messageHandlers (mcp_default handled_handler []) ''default'' = Some handled_handler"
    by (simp add: mcp_default_def registration_defs)
  have h2: "run_validators (requestValidators (mcp_default handled_handler [])) 0
              request_default [] = (None, [], [])"
    by (simp add: mcp_default_def registration_defs)
  have h3: "handled_handler (message request_default) []
      = (Inr (Some ((message request_default)\<lparr>content := JStr ''handled''\<rparr>)), [''handler''])"
    by (simp add: handled_handler_def)
  have h4: "responseInterceptors (mcp_default handled_handler []) = []"
    by (simp add: mcp_default_def registration_defs)
  from untyped_message_uses_default [OF h0,
      of "mcp_default handled_handler []" handled_handler "[]" "[]" "[]" env0]
    h1 h2 h3 h4
  have "messageType request_default = JStr ''default'' \<and>
    fst (processRequest (mcp_default handled_handler []) env0 request_default [])
     = Inr (build_response env0 request_default
              (Some ((message request_default)\<lparr>content := JStr ''handled''\<rparr>))) \<and>
    success (build_response env0 request_default
              (Some ((message request_default)\<lparr>content := JStr ''handled''\<rparr>))) = True"
    by blast
  with h0 h1 h2 h3 h4 show ?thesis by blast
qed

subsection \<open>The invariant of the response\<close>






end
